theory Spec2Isabelle
  imports Complex_Main
begin

section \<open>Values shared by the backends\<close>

text \<open>
  A floating-point scalar as the backends see it: a finite number, one of the two
  infinities, or NaN. Rounding is not modelled: a finite value is a real number.
\<close>

datatype float_val = Finite real | PosInf | NegInf | NaN

datatype py_error =
    ValueError string
  | KeyError string
  | IndexError
  | AxisError
  | InvalidArgumentError
  | DuplicateRegistrationError

section \<open>The GPyTorch frontend: \<open>frontends/pytorch/gpytorch.py\<close>\<close>

text \<open>\<open>torch.isinf\<close> on a scalar tensor: true at both infinities, false at NaN.\<close>

fun torch_isinf :: "float_val \<Rightarrow> bool" where
  "torch_isinf PosInf = True"
| "torch_isinf NegInf = True"
| "torch_isinf _ = False"

text \<open>
  The calls the wrapper makes on the kernel it wraps. \<open>init_params\<close> supplies the
  defaults; \<open>K\<close> and \<open>K_diag\<close> evaluate the kernel.
\<close>

datatype base_call = Call_init_params | Call_K | Call_K_diag

text \<open>
  The object \<open>__init__\<close> builds. \<open>raw_nu_trainable\<close> tells whether \<open>raw_nu\<close> was
  registered as a parameter under the positive constraint (with the untransformed value
  stored) or as a plain buffer.
\<close>

record gpytorch_geometric_kernel =
  trainable_nu_flag :: bool
  lengthscale_val :: float_val
  raw_nu :: float_val
  raw_nu_trainable :: bool

text \<open>Reading a key of the dictionary that \<open>init_params\<close> returns.\<close>

definition dict_get :: "(string \<rightharpoonup> float_val) \<Rightarrow> string \<Rightarrow> py_error + float_val" where
  "dict_get d k = (case d k of None \<Rightarrow> Inl (KeyError k) | Some v \<Rightarrow> Inr v)"

text \<open>
  The setter of the property \<open>nu\<close>, in the trainable case reached from \<open>__init__\<close>:
  an infinite value is refused, any other is stored through the inverse of the
  constraint's transform (\<open>inv_transform\<close>, a function of GPyTorch).
\<close>

definition nu_setter ::
  "(float_val \<Rightarrow> float_val) \<Rightarrow> gpytorch_geometric_kernel \<Rightarrow> float_val
     \<Rightarrow> py_error + gpytorch_geometric_kernel" where
  "nu_setter inv_transform self v =
     (if trainable_nu_flag self then
        (if torch_isinf v
         then Inl (ValueError ''Cannot have infinite `nu` value when trainable_nu = True'')
         else Inr (self\<lparr>raw_nu := inv_transform v\<rparr>))
      else Inr (self\<lparr>raw_nu := v\<rparr>))"

text \<open>
  \<open>GPyTorchGeometricKernel.__init__\<close>. The arguments \<open>lengthscale\<close> and \<open>nu\<close> are
  optional (\<open>None\<close> in the source); \<open>init_params\<close> is what the wrapped kernel's
  method of that name returns. The result is the list of calls made on the wrapped
  kernel together with the error raised or the object built.
\<close>

definition gpytorch_init ::
  "(float_val \<Rightarrow> float_val) \<Rightarrow> (string \<rightharpoonup> float_val) \<Rightarrow> float_val option \<Rightarrow> float_val option
     \<Rightarrow> bool \<Rightarrow> base_call list \<times> (py_error + gpytorch_geometric_kernel)" where
  "gpytorch_init inv_transform init_params lengthscale nu trainable_nu =
     ([Call_init_params],
      (case (case nu of None \<Rightarrow> dict_get init_params ''nu'' | Some v \<Rightarrow> Inr v) of
         Inl e \<Rightarrow> Inl e
       | Inr nu' \<Rightarrow>
          (case (case lengthscale of None \<Rightarrow> dict_get init_params ''lengthscale''
                                    | Some l \<Rightarrow> Inr l) of
             Inl e \<Rightarrow> Inl e
           | Inr lengthscale' \<Rightarrow>
              (if trainable_nu \<and> torch_isinf nu'
               then Inl (ValueError ''Cannot have trainable `nu` parameter with infinite value'')
               else
                 (if trainable_nu
                  then nu_setter inv_transform
                         \<lparr>trainable_nu_flag = trainable_nu, lengthscale_val = lengthscale',
                          raw_nu = Finite 1, raw_nu_trainable = True\<rparr> nu'
                  else Inr \<lparr>trainable_nu_flag = trainable_nu, lengthscale_val = lengthscale',
                            raw_nu = nu', raw_nu_trainable = False\<rparr>)))))"

text \<open>\<open>forward\<close>: the one place where the wrapped kernel is evaluated.\<close>

definition forward_calls :: "bool \<Rightarrow> base_call list" where
  "forward_calls diag = (if diag then [Call_K_diag] else [Call_K])"

section \<open>Backend primitives on dtypes: \<open>float_like\<close>\<close>

text \<open>
  NumPy's scalar types with the abstract classes above them. \<open>np_parent\<close> is the
  class a type derives from in NumPy's hierarchy (timedelta64 is a signed integer
  there; datetime64 is not a number).
\<close>

datatype np_type =
    NP_generic | NP_number | NP_integer | NP_signedinteger | NP_unsignedinteger
  | NP_inexact | NP_floating | NP_complexfloating | NP_flexible | NP_character
  | NP_bool | NP_int8 | NP_int16 | NP_int32 | NP_int64
  | NP_uint8 | NP_uint16 | NP_uint32 | NP_uint64
  | NP_float16 | NP_float32 | NP_float64 | NP_longdouble
  | NP_complex64 | NP_complex128 | NP_clongdouble
  | NP_bytes | NP_str | NP_void | NP_object | NP_datetime64 | NP_timedelta64

fun np_parent :: "np_type \<Rightarrow> np_type option" where
  "np_parent NP_generic = None"
| "np_parent NP_number = Some NP_generic"
| "np_parent NP_integer = Some NP_number"
| "np_parent NP_signedinteger = Some NP_integer"
| "np_parent NP_unsignedinteger = Some NP_integer"
| "np_parent NP_inexact = Some NP_number"
| "np_parent NP_floating = Some NP_inexact"
| "np_parent NP_complexfloating = Some NP_inexact"
| "np_parent NP_flexible = Some NP_generic"
| "np_parent NP_character = Some NP_flexible"
| "np_parent NP_bool = Some NP_generic"
| "np_parent NP_int8 = Some NP_signedinteger"
| "np_parent NP_int16 = Some NP_signedinteger"
| "np_parent NP_int32 = Some NP_signedinteger"
| "np_parent NP_int64 = Some NP_signedinteger"
| "np_parent NP_uint8 = Some NP_unsignedinteger"
| "np_parent NP_uint16 = Some NP_unsignedinteger"
| "np_parent NP_uint32 = Some NP_unsignedinteger"
| "np_parent NP_uint64 = Some NP_unsignedinteger"
| "np_parent NP_float16 = Some NP_floating"
| "np_parent NP_float32 = Some NP_floating"
| "np_parent NP_float64 = Some NP_floating"
| "np_parent NP_longdouble = Some NP_floating"
| "np_parent NP_complex64 = Some NP_complexfloating"
| "np_parent NP_complex128 = Some NP_complexfloating"
| "np_parent NP_clongdouble = Some NP_complexfloating"
| "np_parent NP_bytes = Some NP_character"
| "np_parent NP_str = Some NP_character"
| "np_parent NP_void = Some NP_flexible"
| "np_parent NP_object = Some NP_generic"
| "np_parent NP_datetime64 = Some NP_generic"
| "np_parent NP_timedelta64 = Some NP_signedinteger"

text \<open>
  \<open>np.issubdtype(t, s)\<close>: \<open>s\<close> is \<open>t\<close> or a class above it. The hierarchy is five
  levels deep, so six steps upwards reach the root from anywhere.
\<close>

primrec np_subclass_within :: "nat \<Rightarrow> np_type \<Rightarrow> np_type \<Rightarrow> bool" where
  "np_subclass_within 0 t s = (t = s)"
| "np_subclass_within (Suc n) t s =
     (t = s \<or> (case np_parent t of None \<Rightarrow> False | Some p \<Rightarrow> np_subclass_within n p s))"

definition np_issubdtype :: "np_type \<Rightarrow> np_type \<Rightarrow> bool" where
  "np_issubdtype t s = np_subclass_within 6 t s"

text \<open>The dtypes an array can have: the concrete scalar types, not the classes.\<close>

definition np_concrete :: "np_type \<Rightarrow> bool" where
  "np_concrete t = (t \<notin> {NP_generic, NP_number, NP_integer, NP_signedinteger,
     NP_unsignedinteger, NP_inexact, NP_floating, NP_complexfloating, NP_flexible,
     NP_character})"

text \<open>NumPy's floating-point dtypes (half, single, double, extended precision).\<close>

definition np_floating_point :: "np_type \<Rightarrow> bool" where
  "np_floating_point t = (t \<in> {NP_float16, NP_float32, NP_float64, NP_longdouble})"

text \<open>
  TensorFlow's dtypes. \<open>tf_is_floating\<close> is the property \<open>DType.is_floating\<close>: the
  non-quantized real floating-point types.
\<close>

datatype tf_dtype =
    TF_float16 | TF_bfloat16 | TF_float32 | TF_float64
  | TF_int8 | TF_int16 | TF_int32 | TF_int64
  | TF_uint8 | TF_uint16 | TF_uint32 | TF_uint64
  | TF_bool | TF_string | TF_complex64 | TF_complex128
  | TF_qint8 | TF_quint8 | TF_qint16 | TF_quint16 | TF_qint32
  | TF_resource | TF_variant

fun tf_is_floating :: "tf_dtype \<Rightarrow> bool" where
  "tf_is_floating TF_float16 = True"
| "tf_is_floating TF_bfloat16 = True"
| "tf_is_floating TF_float32 = True"
| "tf_is_floating TF_float64 = True"
| "tf_is_floating _ = False"

text \<open>The reference value: an array or tensor, of which \<open>float_like\<close> reads the dtype.\<close>

record 'd reference =
  dtype :: 'd
  contents :: "float_val list"

text \<open>\<open>float_like\<close> of \<open>lab_extras/numpy/extras.py\<close>.\<close>

definition float_like_numpy :: "np_type reference \<Rightarrow> np_type" where
  "float_like_numpy reference =
     (let reference_dtype = dtype reference in
      if np_issubdtype reference_dtype NP_floating then reference_dtype else NP_float64)"

text \<open>\<open>float_like\<close> of \<open>lab_extras/tensorflow/extras.py\<close>.\<close>

definition float_like_tensorflow :: "tf_dtype reference \<Rightarrow> tf_dtype" where
  "float_like_tensorflow reference =
     (let reference_dtype = dtype reference in
      if tf_is_floating reference_dtype then reference_dtype else TF_float64)"

section \<open>Backend primitives on values: \<open>reciprocal_no_nan\<close>\<close>




















section \<open>Backend primitives on arrays\<close>

text \<open>
  An array or tensor of rank one or two, by its elements: a rank-one array is the list
  of its entries, a rank-two array is its number of columns and the list of its rows
  (each of that length, see \<open>well_formed\<close>). \<open>tensor_len\<close> is Python's \<open>len\<close>, the
  extent of the first axis.
\<close>

datatype 'a tensor = Rank1 "'a list" | Rank2 nat "'a list list"

fun well_formed :: "'a tensor \<Rightarrow> bool" where
  "well_formed (Rank1 xs) = True"
| "well_formed (Rank2 m rows) = list_all (\<lambda>row. length row = m) rows"


fun ndim :: "'a tensor \<Rightarrow> nat" where
  "ndim (Rank1 xs) = 1"
| "ndim (Rank2 m rows) = 2"

text \<open>The first error of a list of results, or all the values.\<close>

fun sequence_sum :: "('e + 'a) list \<Rightarrow> 'e + 'a list" where
  "sequence_sum [] = Inr []"
| "sequence_sum (x # xs) =
     (case x of
        Inl e \<Rightarrow> Inl e
      | Inr v \<Rightarrow> (case sequence_sum xs of Inl e \<Rightarrow> Inl e | Inr vs \<Rightarrow> Inr (v # vs)))"

text \<open>
  Broadcasting of two extents along one axis: equal extents, or one of them 1, which
  is then repeated. \<open>broadcast_index\<close> is the position read in an operand of extent
  \<open>n\<close> for position \<open>j\<close> of the result.
\<close>

definition broadcast_len :: "nat \<Rightarrow> nat \<Rightarrow> nat option" where
  "broadcast_len n m =
     (if n = m then Some n else if n = 1 then Some m else if m = 1 then Some n else None)"

definition broadcast_index :: "nat \<Rightarrow> nat \<Rightarrow> nat" where
  "broadcast_index n j = (if n = 1 then 0 else j)"

subsection \<open>\<open>eigenpairs\<close>\<close>

text \<open>A Python slice \<open>xs[:k]\<close>: a negative \<open>k\<close> counts from the end.\<close>

definition py_slice_stop :: "int \<Rightarrow> 'a list \<Rightarrow> 'a list" where
  "py_slice_stop k xs =
     (if 0 \<le> k then take (nat k) xs else take (length xs - nat (- k)) xs)"

text \<open>
  \<open>eigenpairs\<close> of \<open>lab_extras/tensorflow/extras.py\<close>. A matrix is the list of its
  rows. \<open>eigh\<close> is \<open>tf.linalg.eigh\<close>, which returns the eigenvalues and the matrix
  whose columns are the eigenvectors; \<open>u[:, :k]\<close> keeps the first \<open>k\<close> entries of each
  row.
\<close>

definition eigenpairs ::
  "(real list list \<Rightarrow> real list \<times> real list list) \<Rightarrow> real list list \<Rightarrow> int
     \<Rightarrow> real list \<times> real list list" where
  "eigenpairs eigh L k = (let (l, u) = eigh L in (py_slice_stop k l, map (py_slice_stop k) u))"

text \<open>
  What \<open>tf.linalg.eigh\<close> promises of its result for a symmetric matrix: the eigenvalues
  in non-decreasing order, and in column \<open>j\<close> of \<open>u\<close> a unit eigenvector for the
  \<open>j\<close>-th of them, the columns orthogonal to each other.
\<close>

definition dot :: "real list \<Rightarrow> real list \<Rightarrow> real" where
  "dot v w = sum_list (map (\<lambda>(x, y). x * y) (zip v w))"

definition mat_vec :: "real list list \<Rightarrow> real list \<Rightarrow> real list" where
  "mat_vec L v = map (\<lambda>row. dot row v) L"

definition column :: "nat \<Rightarrow> real list list \<Rightarrow> real list" where
  "column j u = map (\<lambda>row. row ! j) u"

definition is_eigh :: "real list list \<Rightarrow> real list \<times> real list list \<Rightarrow> bool" where
  "is_eigh L r =
     (let (l, u) = r; n = length L in
      length l = n \<and> length u = n \<and> list_all (\<lambda>row. length row = n) u \<and> sorted l
      \<and> list_all (\<lambda>j. mat_vec L (column j u) = map (\<lambda>x. l ! j * x) (column j u)) [0..<n]
      \<and> list_all (\<lambda>i. list_all (\<lambda>j. dot (column i u) (column j u) = (if i = j then 1 else 0))
                          [0..<n]) [0..<n])"

text \<open>The \<open>k\<close> largest entries of a list of eigenvalues, in ascending order.\<close>

definition k_largest :: "nat \<Rightarrow> real list \<Rightarrow> real list" where
  "k_largest k l = drop (length l - k) (sort l)"

subsection \<open>\<open>set_value\<close>\<close>






subsection \<open>\<open>take_along_axis\<close>\<close>

text \<open>
  An axis argument is normalised against the rank: a negative axis counts from the last
  one, an axis outside the rank is an error.
\<close>

definition normalize_axis :: "int \<Rightarrow> nat \<Rightarrow> py_error + nat" where
  "normalize_axis axis rank =
     (if - int rank \<le> axis \<and> axis < int rank
      then Inr (nat (if axis < 0 then axis + int rank else axis))
      else Inl AxisError)"

text \<open>
  Reading one element by an index: NumPy's indexing takes a negative index from the
  end and raises \<open>IndexError\<close> outside the extent; \<open>tf.gather\<close> (on the CPU) accepts
  the indices from 0 to the extent only.
\<close>

definition np_pick :: "'a list \<Rightarrow> int \<Rightarrow> py_error + 'a" where
  "np_pick xs i =
     (let n = int (length xs) in
      if - n \<le> i \<and> i < n then Inr (xs ! nat (if i < 0 then i + n else i))
      else Inl IndexError)"

definition tf_pick :: "'a list \<Rightarrow> int \<Rightarrow> py_error + 'a" where
  "tf_pick xs i =
     (if 0 \<le> i \<and> i < int (length xs) then Inr (xs ! nat i) else Inl InvalidArgumentError)"

text \<open>
  \<open>np.take_along_axis(a, index, axis)\<close> with an integer axis. The two arrays must have
  the same rank. Along the axis the result has the extent of \<open>index\<close> and holds the
  element of \<open>a\<close> that the index selects; along the other axis the two arrays are
  broadcast against each other.
\<close>

definition np_take_along_axis :: "'a tensor \<Rightarrow> int tensor \<Rightarrow> int \<Rightarrow> py_error + 'a tensor" where
  "np_take_along_axis a index axis =
     (case normalize_axis axis (ndim a) of
        Inl e \<Rightarrow> Inl e
      | Inr ax \<Rightarrow>
         (case (a, index) of
            (Rank1 xs, Rank1 is) \<Rightarrow>
              (case sequence_sum (map (np_pick xs) is) of
                 Inl e \<Rightarrow> Inl e | Inr ys \<Rightarrow> Inr (Rank1 ys))
          | (Rank2 m rows, Rank2 mi irows) \<Rightarrow>
              (if ax = 0 then
                 (case broadcast_len m mi of
                    None \<Rightarrow> Inl IndexError
                  | Some w \<Rightarrow>
                     (case sequence_sum (map (\<lambda>irow. sequence_sum (map (\<lambda>j.
                              (case np_pick rows (irow ! broadcast_index mi j) of
                                 Inl e \<Rightarrow> Inl e
                               | Inr row \<Rightarrow> Inr (row ! broadcast_index m j))) [0..<w])) irows) of
                        Inl e \<Rightarrow> Inl e | Inr out \<Rightarrow> Inr (Rank2 w out)))
               else
                 (case broadcast_len (length rows) (length irows) of
                    None \<Rightarrow> Inl IndexError
                  | Some h \<Rightarrow>
                     (case sequence_sum (map (\<lambda>r.
                              sequence_sum (map (np_pick (rows ! broadcast_index (length rows) r))
                                 (irows ! broadcast_index (length irows) r))) [0..<h]) of
                        Inl e \<Rightarrow> Inl e | Inr out \<Rightarrow> Inr (Rank2 mi out))))
          | _ \<Rightarrow> Inl (ValueError
                  ''`indices` and `arr` must have the same number of dimensions'')))"

text \<open>
  \<open>tf.gather(params, indices, axis)\<close> with a rank-one list of indices: the result holds,
  along the axis, the slices of \<open>params\<close> that the indices name, one after the other.
\<close>

definition tf_gather :: "'a tensor \<Rightarrow> int list \<Rightarrow> int \<Rightarrow> py_error + 'a tensor" where
  "tf_gather params indices axis =
     (case normalize_axis axis (ndim params) of
        Inl e \<Rightarrow> Inl InvalidArgumentError
      | Inr ax \<Rightarrow>
         (case params of
            Rank1 xs \<Rightarrow>
              (case sequence_sum (map (tf_pick xs) indices) of
                 Inl e \<Rightarrow> Inl e | Inr ys \<Rightarrow> Inr (Rank1 ys))
          | Rank2 m rows \<Rightarrow>
              (if ax = 0 then
                 (case sequence_sum (map (tf_pick rows) indices) of
                    Inl e \<Rightarrow> Inl e | Inr out \<Rightarrow> Inr (Rank2 m out))
               else
                 (case sequence_sum (map (\<lambda>row. sequence_sum (map (tf_pick row) indices)) rows) of
                    Inl e \<Rightarrow> Inl e | Inr out \<Rightarrow> Inr (Rank2 (length indices) out)))))"

text \<open>\<open>B.flatten\<close>: the elements of an array in row-major order.\<close>

fun flatten :: "'a tensor \<Rightarrow> 'a list" where
  "flatten (Rank1 xs) = xs"
| "flatten (Rank2 m rows) = concat rows"

text \<open>\<open>take_along_axis\<close> of the NumPy backend and of the TensorFlow backend.\<close>

definition take_along_axis_numpy :: "'a tensor \<Rightarrow> int tensor \<Rightarrow> int \<Rightarrow> py_error + 'a tensor" where
  "take_along_axis_numpy a index axis = np_take_along_axis a index axis"

definition take_along_axis_tensorflow ::
  "'a tensor \<Rightarrow> int tensor \<Rightarrow> int \<Rightarrow> py_error + 'a tensor" where
  "take_along_axis_tensorflow a index axis = tf_gather a (flatten index) axis"

section \<open>Backend primitives on generators: the random state\<close>

text \<open>
  Random generators are mutable objects, so they live in a heap: a list of generator
  states, a generator being its position in the list. The states are of a type \<open>'st\<close>
  that the generator's algorithm fixes; the algorithm itself is a function \<open>nxt\<close>
  from a state to the number drawn and the state after the draw.
\<close>

type_synonym 'st heap = "'st list"

text \<open>
  \<open>np.random.RandomState()\<close> allocates a generator; without a seed NumPy seeds it from
  the operating system, which \<open>seed\<close> stands for.
\<close>

definition np_RandomState :: "'st \<Rightarrow> 'st heap \<Rightarrow> 'st heap \<times> nat" where
  "np_RandomState seed h = (h @ [seed], length h)"

text \<open>\<open>RandomState.get_state\<close> returns a copy of the state of the generator.\<close>

definition np_get_state :: "'st heap \<Rightarrow> nat \<Rightarrow> 'st" where
  "np_get_state h gen = h ! gen"

text \<open>
  \<open>RandomState.set_state\<close> overwrites the state of the generator, and raises on a
  value that is not a state of the algorithm (\<open>valid\<close> tells which are).
\<close>

definition np_set_state :: "('st \<Rightarrow> bool) \<Rightarrow> 'st heap \<Rightarrow> nat \<Rightarrow> 'st \<Rightarrow> py_error + 'st heap" where
  "np_set_state valid h gen state =
     (if valid state then Inr (h[gen := state])
      else Inl (ValueError ''state is not a legacy MT19937 state''))"

text \<open>\<open>get_random_state\<close> and \<open>restore_random_state\<close> of \<open>lab_extras/numpy/extras.py\<close>.\<close>

definition get_random_state_numpy :: "'st heap \<Rightarrow> nat \<Rightarrow> 'st" where
  "get_random_state_numpy h key = np_get_state h key"

definition restore_random_state_numpy ::
  "('st \<Rightarrow> bool) \<Rightarrow> 'st \<Rightarrow> 'st heap \<Rightarrow> nat \<Rightarrow> 'st \<Rightarrow> 'st heap \<times> (py_error + nat)" where
  "restore_random_state_numpy valid seed h key state =
     (let (h1, gen) = np_RandomState seed h in
      case np_set_state valid h1 gen state of
        Inl e \<Rightarrow> (h1, Inl e)
      | Inr h2 \<Rightarrow> (h2, Inr gen))"

text \<open>One draw from a generator of the heap, and \<open>n\<close> draws in a row.\<close>

definition draw :: "('st \<Rightarrow> 'd \<times> 'st) \<Rightarrow> 'st heap \<Rightarrow> nat \<Rightarrow> 'd \<times> 'st heap" where
  "draw nxt h gen = (let (d, s') = nxt (h ! gen) in (d, h[gen := s']))"

primrec draws :: "('st \<Rightarrow> 'd \<times> 'st) \<Rightarrow> nat \<Rightarrow> 'st heap \<Rightarrow> nat \<Rightarrow> 'd list \<times> 'st heap" where
  "draws nxt 0 h gen = ([], h)"
| "draws nxt (Suc n) h gen =
     (let (d, h1) = draw nxt h gen; (ds, h2) = draws nxt n h1 gen in (d # ds, h2))"

text \<open>
  A TensorFlow generator keeps its state in a variable, and the heap holds the
  variables. The property \<open>Generator.state\<close> is that variable, not a copy of its value.
  \<open>Generator.from_state\<close> takes a variable or a tensor: a variable is reused as the
  state of the new generator, a tensor initialises a new variable.
\<close>

record tf_generator =
  state_var :: nat
  algorithm :: int

datatype 'st tf_state = StateVariable nat | StateTensor 'st

definition tf_Generator_from_state ::
  "'st heap \<Rightarrow> 'st tf_state \<Rightarrow> int \<Rightarrow> 'st heap \<times> tf_generator" where
  "tf_Generator_from_state h state alg =
     (case state of
        StateVariable v \<Rightarrow> (h, \<lparr>state_var = v, algorithm = alg\<rparr>)
      | StateTensor s \<Rightarrow> (h @ [s], \<lparr>state_var = length h, algorithm = alg\<rparr>))"

text \<open>\<open>get_random_state\<close> and \<open>restore_random_state\<close> of \<open>lab_extras/tensorflow/extras.py\<close>.\<close>

definition get_random_state_tensorflow :: "tf_generator \<Rightarrow> 'st tf_state \<times> int" where
  "get_random_state_tensorflow key = (StateVariable (state_var key), algorithm key)"

definition restore_random_state_tensorflow ::
  "'st heap \<Rightarrow> tf_generator \<Rightarrow> 'st tf_state \<times> int \<Rightarrow> 'st heap \<times> tf_generator" where
  "restore_random_state_tensorflow h key state =
     (let gen = tf_Generator_from_state h (fst state) (snd state) in gen)"

definition tf_draws ::
  "('st \<Rightarrow> 'd \<times> 'st) \<Rightarrow> nat \<Rightarrow> 'st heap \<Rightarrow> tf_generator \<Rightarrow> 'd list \<times> 'st heap" where
  "tf_draws nxt n h gen = draws nxt n h (state_var gen)"

text \<open>
  A generator to run the definitions on: the state is a counter, a draw returns it and
  advances it by one.
\<close>

definition counter_next :: "nat \<Rightarrow> nat \<times> nat" where
  "counter_next s = (s, s + 1)"

section \<open>The dispatch registry\<close>

text \<open>
  The type patterns of the signatures in the two backend modules, and a registration
  entry: the operation name, the tuple of patterns, and the implementation (named by
  the line of its \<open>def\<close> in the module).
\<close>

datatype type_pattern =
    T_Number | T_NPNumeric | T_TFNumeric | T_NPRandomState | T_TFRandomState
  | T_spmatrix | T_int | T_List | T_Any | T_Union "type_pattern list"

record registration_entry =
  operation_name :: string
  type_patterns :: "type_pattern list"
  implementation :: nat

text \<open>
  Modelled from the spec: the function \<open>register\<close> of the dispatch registry, which is
  not among the sources (the modules only apply the decorator \<open>dispatch\<close>). The spec:
  \<open>register(operation_name, argument_type_patterns, implementation)\<close> associates an
  implementation with a signature, and fails with a \<open>DuplicateRegistrationError\<close> if an
  identical signature is already registered for that operation.
\<close>

definition register ::
  "registration_entry list \<Rightarrow> string \<Rightarrow> type_pattern list \<Rightarrow> nat
     \<Rightarrow> py_error + registration_entry list" where
  "register registry name patterns impl =
     (if list_ex (\<lambda>e. operation_name e = name \<and> type_patterns e = patterns) registry
      then Inl DuplicateRegistrationError
      else Inr (registry @
             [\<lparr>operation_name = name, type_patterns = patterns, implementation = impl\<rparr>]))"

text \<open>
  \<open>_Numeric\<close> of \<open>lab_extras/numpy/extras.py\<close>, and the signature of its two
  definitions of \<open>qr\<close> (lines 37 and 164), which is the same.
\<close>

definition numpy_Numeric :: type_pattern where
  "numpy_Numeric = T_Union [T_Number, T_NPNumeric]"

definition numpy_qr_signature :: "type_pattern list" where
  "numpy_qr_signature = [numpy_Numeric]"

section \<open>Properties\<close>

subsection \<open>The kernel adapter refuses a trainable infinite smoothness\<close>

text \<open>
  C4. Constructing the adapter with \<open>trainable_nu = True\<close> and \<open>nu\<close> infinite fails,
  whatever the other arguments are: the constructor raises its \<open>ValueError\<close> (or, when
  no length scale is given and the wrapped kernel supplies no default for it, the
  \<open>KeyError\<close> of that lookup, which comes first). The only call it has made on the
  wrapped kernel is \<open>init_params\<close>: none of the calls by which \<open>forward\<close> evaluates
  the kernel.
\<close>

theorem gpytorch_init_trainable_inf:
  "fst (gpytorch_init inv_transform init_params lengthscale (Some PosInf) True)
     = [Call_init_params]
   \<and> set (forward_calls diag)
       \<inter> set (fst (gpytorch_init inv_transform init_params lengthscale (Some PosInf) True)) = {}
   \<and> (\<exists>e. snd (gpytorch_init inv_transform init_params lengthscale (Some PosInf) True) = Inl e)
   \<and> snd (gpytorch_init inv_transform init_params lengthscale (Some PosInf) True)
     = (case lengthscale of
          None \<Rightarrow>
            (case init_params ''lengthscale'' of
               None \<Rightarrow> Inl (KeyError ''lengthscale'')
             | Some l \<Rightarrow>
                 Inl (ValueError ''Cannot have trainable `nu` parameter with infinite value''))
        | Some l \<Rightarrow>
            Inl (ValueError ''Cannot have trainable `nu` parameter with infinite value''))"
  by (simp add: gpytorch_init_def dict_get_def forward_calls_def split: option.splits)

subsection \<open>\<open>float_like\<close>\<close>

lemma np_issubdtype_floating:
  "np_concrete t \<Longrightarrow> np_issubdtype t NP_floating = np_floating_point t"
  by (cases t)
     (simp_all add: np_issubdtype_def np_concrete_def np_floating_point_def eval_nat_numeral)

text \<open>
  C8. For every reference, \<open>float_like\<close> returns the reference's own dtype when that
  dtype is a floating-point type and the backend's float64 otherwise, in the NumPy
  backend (for the dtypes an array can have) and in the TensorFlow backend.
\<close>

theorem float_like_both_backends:
  "(np_concrete (dtype r) \<longrightarrow>
      float_like_numpy r = (if np_floating_point (dtype r) then dtype r else NP_float64))
   \<and> float_like_tensorflow t = (if tf_is_floating (dtype t) then dtype t else TF_float64)"
  by (simp add: float_like_numpy_def float_like_tensorflow_def np_issubdtype_floating)

theorem float_like_both_backends_witness:
  "np_concrete NP_int32 \<and> np_concrete NP_float32
   \<and> float_like_numpy \<lparr>dtype = NP_int32, contents = [Finite 1]\<rparr> = NP_float64
   \<and> float_like_numpy \<lparr>dtype = NP_float32, contents = [Finite 1]\<rparr> = NP_float32
   \<and> float_like_tensorflow \<lparr>dtype = TF_bfloat16, contents = []\<rparr> = TF_bfloat16
   \<and> float_like_tensorflow \<lparr>dtype = TF_int32, contents = []\<rparr> = TF_float64"
  using float_like_both_backends
          [of "\<lparr>dtype = NP_int32, contents = [Finite 1]\<rparr>" "\<lparr>dtype = TF_bfloat16, contents = []\<rparr>"]
        float_like_both_backends
          [of "\<lparr>dtype = NP_float32, contents = [Finite 1]\<rparr>" "\<lparr>dtype = TF_int32, contents = []\<rparr>"]
  by (simp add: np_concrete_def np_floating_point_def)

subsection \<open>\<open>reciprocal_no_nan\<close>\<close>


















subsection \<open>The random state\<close>

lemma length_draw: "length (snd (draw nxt h g)) = length h"
  by (simp add: draw_def split_def Let_def)

lemma draw_other: "g' \<noteq> g \<Longrightarrow> snd (draw nxt h g) ! g' = h ! g'"
  by (simp add: draw_def split_def Let_def)

lemma draws_values_cong:
  "g < length h \<Longrightarrow> g' < length h' \<Longrightarrow> h ! g = h' ! g' \<Longrightarrow>
   fst (draws nxt n h g) = fst (draws nxt n h' g')"
proof (induction n arbitrary: h h')
  case 0
  then show ?case by simp
next
  case (Suc n)
  let ?h1 = "snd (draw nxt h g)" and ?h1' = "snd (draw nxt h' g')"
  have a: "fst (draw nxt h g) = fst (draw nxt h' g')"
    using Suc.prems by (simp add: draw_def split_def Let_def)
  have b: "?h1 ! g = ?h1' ! g'"
    using Suc.prems by (simp add: draw_def split_def Let_def)
  have c: "g < length ?h1" "g' < length ?h1'"
    using Suc.prems by (simp_all add: length_draw)
  from Suc.IH [OF c b] a show ?case
    by (simp add: split_def Let_def)
qed

lemma length_draws: "length (snd (draws nxt n h g)) = length h"
  by (induction n arbitrary: h) (simp_all add: split_def Let_def length_draw)

lemma draws_other: "g' \<noteq> g \<Longrightarrow> snd (draws nxt n h g) ! g' = h ! g'"
  by (induction n arbitrary: h) (simp_all add: split_def Let_def draw_other)

text \<open>
  C9. For every NumPy generator \<open>key\<close> of the heap and every state,
  \<open>restore_random_state\<close> leaves the heap as it was up to one new generator at a fresh
  address: the state of \<open>key\<close> is unchanged and so are its next draws. With a valid
  state the new generator is returned and carries that state; with any other value the
  call raises, and \<open>key\<close> is untouched all the same.
\<close>

theorem restore_random_state_numpy_frame:
  "key < length h \<Longrightarrow>
   (let (h', r) = restore_random_state_numpy valid seed h key state in
      length h' = Suc (length h)
      \<and> take (length h) h' = h
      \<and> h' ! key = h ! key
      \<and> fst (draws nxt n h' key) = fst (draws nxt n h key)
      \<and> (valid state \<longrightarrow> r = Inr (length h) \<and> length h \<noteq> key \<and> h' ! length h = state)
      \<and> (\<not> valid state \<longrightarrow> (\<exists>e. r = Inl e)))"
  by (auto simp: restore_random_state_numpy_def np_RandomState_def np_set_state_def
        nth_append intro!: draws_values_cong)


theorem restore_random_state_numpy_frame_witness:
  "(0::nat) < length [5::nat]
   \<and> restore_random_state_numpy (\<lambda>s. s < 100) 0 [5::nat] 0 9 = ([5, 9], Inr 1)
   \<and> fst (draws counter_next 2 [5, 9] 0) = fst (draws counter_next 2 [5] 0)
   \<and> fst (draws counter_next 2 [5] 0) = [5, 6]"
proof -
  have k: "(0::nat) < length [5::nat]" by simp
  have r: "restore_random_state_numpy (\<lambda>s. s < 100) 0 [5] 0 9 = ([5::nat, 9], Inr 1)"
    by (simp add: restore_random_state_numpy_def np_RandomState_def np_set_state_def)
  have d: "fst (draws counter_next 2 [5] 0) = [5, 6]"
    by (simp add: eval_nat_numeral draw_def counter_next_def)
  from restore_random_state_numpy_frame [OF k, of "\<lambda>s. s < 100" 0 9 counter_next 2]
  have "fst (draws counter_next 2 [5, 9] 0) = fst (draws counter_next 2 [5] 0)"
    by (simp add: r)
  with k r d show ?thesis by blast
qed

text \<open>
  In the NumPy backend the round trip holds. The state captured from \<open>key\<close> restores
  into a new generator at a fresh address, and that generator's next \<open>n\<close> draws are
  the next \<open>n\<close> draws of \<open>key\<close> at the time of the capture, however many draws \<open>m\<close>
  have been taken from \<open>key\<close> in between.
\<close>

lemma restore_random_state_numpy_roundtrip:
  assumes "key < length h" and "valid (h ! key)"
  shows "restore_random_state_numpy valid seed h key (get_random_state_numpy h key)
           = (h @ [h ! key], Inr (length h))"
    and "fst (draws nxt n (snd (draws nxt m (h @ [h ! key]) key)) (length h))
           = fst (draws nxt n h key)"
proof -
  show "restore_random_state_numpy valid seed h key (get_random_state_numpy h key)
           = (h @ [h ! key], Inr (length h))"
    using assms
    by (simp add: restore_random_state_numpy_def get_random_state_numpy_def
          np_RandomState_def np_set_state_def np_get_state_def)
  let ?h1 = "snd (draws nxt m (h @ [h ! key]) key)"
  have ne: "length h \<noteq> key" using assms by simp
  have "?h1 ! length h = (h @ [h ! key]) ! length h"
    by (rule draws_other) (rule ne)
  then have st: "?h1 ! length h = h ! key" by simp
  have len: "length h < length ?h1" by (simp add: length_draws)
  show "fst (draws nxt n ?h1 (length h)) = fst (draws nxt n h key)"
    by (rule draws_values_cong [OF len assms(1) st])
qed

text \<open>
  In the TensorFlow backend the captured state is the generator's own state variable,
  and the generator restored from it is built on that same variable: no variable is
  allocated, and the result is the generator \<open>key\<close> itself.
\<close>

lemma restore_random_state_tensorflow_alias:
  "restore_random_state_tensorflow h key (get_random_state_tensorflow key) = (h, key)"
  by (simp add: restore_random_state_tensorflow_def get_random_state_tensorflow_def
        tf_Generator_from_state_def)

text \<open>
  C7, at a concrete generator (a counter starting at 0). In the TensorFlow backend the
  restored generator shares the state of the original: once two numbers (0 and 1) have
  been drawn from the restored generator, the next two draws of the original are 2
  and 3. In the NumPy backend the same steps give 0 and 1 from both generators.
\<close>

theorem restore_random_state_tensorflow_shares_state:
  "restore_random_state_tensorflow [0::nat] \<lparr>state_var = 0, algorithm = 1\<rparr>
       (get_random_state_tensorflow \<lparr>state_var = 0, algorithm = 1\<rparr>)
     = ([0], \<lparr>state_var = 0, algorithm = 1\<rparr>)
   \<and> tf_draws counter_next 2 [0] \<lparr>state_var = 0, algorithm = 1\<rparr> = ([0, 1], [2])
   \<and> tf_draws counter_next 2 [2] \<lparr>state_var = 0, algorithm = 1\<rparr> = ([2, 3], [4])
   \<and> restore_random_state_numpy (\<lambda>s. True) 7 [0::nat] 0 (get_random_state_numpy [0] 0)
     = ([0, 0], Inr 1)
   \<and> draws counter_next 2 [0, 0] 1 = ([0, 1], [0, 2])
   \<and> draws counter_next 2 [0, 2] 0 = ([0, 1], [2, 2])"
  by (simp add: restore_random_state_tensorflow_alias tf_draws_def eval_nat_numeral draw_def
        counter_next_def restore_random_state_numpy_def get_random_state_numpy_def
        np_RandomState_def np_set_state_def np_get_state_def)

subsection \<open>The dispatch registry\<close>

text \<open>
  C1. For every operation name and every signature: once \<open>register\<close> has accepted
  the signature for the operation, a second \<open>register\<close> of the same signature for that
  operation fails with \<open>DuplicateRegistrationError\<close>, and so does any \<open>register\<close> of a
  signature that the registry already holds for the operation. The two definitions of
  \<open>qr\<close> in the NumPy backend have the same signature, so registering the second one
  raises the error.
\<close>

theorem register_twice_fails:
  "(register registry name patterns impl1 = Inr registry'
      \<longrightarrow> register registry' name patterns impl2 = Inl DuplicateRegistrationError)
   \<and> (list_ex (\<lambda>e. operation_name e = name \<and> type_patterns e = patterns) registry
      \<longrightarrow> register registry name patterns impl2 = Inl DuplicateRegistrationError)"
  by (auto simp: register_def split: if_splits)

theorem register_twice_fails_witness:
  "register [] ''qr'' numpy_qr_signature 37
     = Inr [\<lparr>operation_name = ''qr'', type_patterns = numpy_qr_signature, implementation = 37\<rparr>]
   \<and> register [\<lparr>operation_name = ''qr'', type_patterns = numpy_qr_signature, implementation = 37\<rparr>]
       ''qr'' numpy_qr_signature 164 = Inl DuplicateRegistrationError"
  using register_twice_fails [of "[]" "''qr''" numpy_qr_signature 37
          "[\<lparr>operation_name = ''qr'', type_patterns = numpy_qr_signature, implementation = 37\<rparr>]" 164]
  by (simp add: register_def)


subsection \<open>\<open>eigenpairs\<close>\<close>

lemma py_slice_stop_nonneg: "0 \<le> k \<Longrightarrow> py_slice_stop k xs = take (nat k) xs"
  by (simp add: py_slice_stop_def)

text \<open>
  Whatever the matrix: when \<open>eigh\<close> returns the eigenvalues in ascending order and
  \<open>k\<close> is not negative, \<open>eigenpairs\<close> returns the first \<open>k\<close> of them, none of which
  is above any of the others. These are the \<open>k\<close> lowest eigenvalues.
\<close>

lemma eigenpairs_lowest:
  assumes "is_eigh L (eigh L)" and "0 \<le> k"
  shows "fst (eigenpairs eigh L k) = take (nat k) (fst (eigh L))"
    and "\<forall>x \<in> set (fst (eigenpairs eigh L k)). \<forall>y \<in> set (drop (nat k) (fst (eigh L))). x \<le> y"
proof -
  obtain l u where lu: "eigh L = (l, u)" by (cases "eigh L")
  show a: "fst (eigenpairs eigh L k) = take (nat k) (fst (eigh L))"
    using assms(2) by (simp add: eigenpairs_def lu py_slice_stop_nonneg)
  have "sorted l" using assms(1) by (simp add: is_eigh_def lu Let_def)
  then have "sorted (take (nat k) l @ drop (nat k) l)" by simp
  then have "\<forall>x \<in> set (take (nat k) l). \<forall>y \<in> set (drop (nat k) l). x \<le> y"
    by (simp only: sorted_append) blast
  then show "\<forall>x \<in> set (fst (eigenpairs eigh L k)). \<forall>y \<in> set (drop (nat k) (fst (eigh L))). x \<le> y"
    by (simp add: a lu)
qed

text \<open>
  C2, at the matrix with rows \<open>(1, 0)\<close> and \<open>(0, 2)\<close> and \<open>k = 1\<close>. Its ascending
  eigendecomposition has the eigenvalues 1 and 2 with the unit vectors as eigenvectors.
  \<open>eigenpairs\<close> returns the eigenvalue 1 with its eigenvector, where the largest
  eigenvalue is 2.
\<close>

theorem eigenpairs_returns_lowest:
  "is_eigh [[1, 0], [0, 2]] ([1, 2], [[1, 0], [0, 1]])
   \<and> eigenpairs (\<lambda>L. ([1, 2], [[1, 0], [0, 1]])) [[1, 0], [0, 2]] 1 = ([1], [[1], [0]])
   \<and> k_largest 1 [1, 2] = [2]
   \<and> fst (eigenpairs (\<lambda>L. ([1, 2], [[1, 0], [0, 1]])) [[1, 0], [0, 2]] 1) \<noteq> k_largest 1 [1, 2]"
  by (simp add: is_eigh_def eigenpairs_def py_slice_stop_def k_largest_def mat_vec_def
        column_def dot_def upt_rec)

subsection \<open>\<open>take_along_axis\<close>\<close>

lemma sequence_sum_all_Inr:
  "\<forall>x \<in> set xs. f x = Inr (g x) \<Longrightarrow> sequence_sum (map f xs) = Inr (map g xs)"
  by (induction xs) simp_all

text \<open>
  On arrays of rank one the two backends agree: for indices between 0 and the length
  of \<open>a\<close>, with the axis 0 (or -1), both return the array that holds \<open>a[index[k]]\<close>
  at position \<open>k\<close>.
\<close>

lemma take_along_axis_rank1_agree:
  assumes "\<forall>i \<in> set is. 0 \<le> i \<and> i < int (length xs)" and "axis = 0 \<or> axis = - 1"
  shows "take_along_axis_numpy (Rank1 xs) (Rank1 is) axis = Inr (Rank1 (map (\<lambda>i. xs ! nat i) is))"
    and "take_along_axis_tensorflow (Rank1 xs) (Rank1 is) axis
           = take_along_axis_numpy (Rank1 xs) (Rank1 is) axis"
proof -
  have ax: "normalize_axis axis (Suc 0) = Inr 0"
    using assms(2) by (auto simp: normalize_axis_def)
  have np: "\<forall>i \<in> set is. np_pick xs i = Inr (xs ! nat i)"
    using assms(1) by (auto simp: np_pick_def Let_def)
  have tf: "\<forall>i \<in> set is. tf_pick xs i = Inr (xs ! nat i)"
    using assms(1) by (auto simp: tf_pick_def)
  show a: "take_along_axis_numpy (Rank1 xs) (Rank1 is) axis = Inr (Rank1 (map (\<lambda>i. xs ! nat i) is))"
    by (simp add: take_along_axis_numpy_def np_take_along_axis_def ax
          sequence_sum_all_Inr [OF np])
  show "take_along_axis_tensorflow (Rank1 xs) (Rank1 is) axis
           = take_along_axis_numpy (Rank1 xs) (Rank1 is) axis"
    by (simp add: a) (simp add: take_along_axis_tensorflow_def tf_gather_def ax
          sequence_sum_all_Inr [OF tf])
qed

text \<open>
  C3, at the array with rows \<open>(1, 2)\<close> and \<open>(3, 4)\<close>. With the index array \<open>((0, 0))\<close>
  and axis 0 the NumPy backend returns the one row \<open>(1, 2)\<close> and the TensorFlow backend
  returns that row twice; with the index array \<open>((1, 0), (0, 1))\<close> and axis 1 the NumPy
  backend returns a 2 by 2 array and the TensorFlow backend a 2 by 4 array. Both calls
  are defined in both backends, and the results differ in shape.
\<close>

theorem take_along_axis_rank2_differ:
  "take_along_axis_numpy (Rank2 2 [[1, 2], [3, 4::int]]) (Rank2 2 [[0, 0]]) 0
     \<noteq> take_along_axis_tensorflow (Rank2 2 [[1, 2], [3, 4::int]]) (Rank2 2 [[0, 0]]) 0
   \<and> take_along_axis_numpy (Rank2 2 [[1, 2], [3, 4::int]]) (Rank2 2 [[0, 0]]) 0
     = Inr (Rank2 2 [[1, 2]])
   \<and> take_along_axis_tensorflow (Rank2 2 [[1, 2], [3, 4::int]]) (Rank2 2 [[0, 0]]) 0
     = Inr (Rank2 2 [[1, 2], [1, 2]])
   \<and> take_along_axis_numpy (Rank2 2 [[1, 2], [3, 4::int]]) (Rank2 2 [[1, 0], [0, 1]]) 1
     = Inr (Rank2 2 [[2, 1], [3, 4]])
   \<and> take_along_axis_tensorflow (Rank2 2 [[1, 2], [3, 4::int]]) (Rank2 2 [[1, 0], [0, 1]]) 1
     = Inr (Rank2 4 [[2, 1, 1, 2], [4, 3, 3, 4]])"
  by (simp add: take_along_axis_numpy_def take_along_axis_tensorflow_def
        np_take_along_axis_def tf_gather_def normalize_axis_def broadcast_len_def
        broadcast_index_def np_pick_def tf_pick_def upt_rec)

subsection \<open>\<open>set_value\<close>\<close>






end
